theory Spec2Isabelle
  imports Main "HOL-Library.Sublist"
begin

section \<open>Strings and formatting\<close>

text \<open>
  \<^verbatim>\<open>strings.Contains(s, substr)\<close>: does \<open>substr\<close> occur in \<open>s\<close> as a
  contiguous run of bytes.
\<close>

fun Contains :: "string \<Rightarrow> string \<Rightarrow> bool" where
  "Contains [] substr = (substr = [])"
| "Contains (c # cs) substr = (prefix substr (c # cs) \<or> Contains cs substr)"

text \<open>
  \<^verbatim>\<open>strings.Replace(s, old, new, 1)\<close>: the leftmost occurrence of \<open>old\<close> in
  \<open>s\<close> is replaced by \<open>new\<close>; without an occurrence \<open>s\<close> is returned as it is.
  An empty \<open>old\<close> matches at the very start.
\<close>

fun Replace_1 :: "string \<Rightarrow> string \<Rightarrow> string \<Rightarrow> string" where
  "Replace_1 [] old new = (if old = [] then new else [])"
| "Replace_1 (c # cs) old new =
     (if prefix old (c # cs) then new @ drop (length old) (c # cs)
      else c # Replace_1 cs old new)"

text \<open>The verb \<^verbatim>\<open>%d\<close> of \<^verbatim>\<open>fmt\<close> on an \<^verbatim>\<open>int\<close>: decimal digits, a minus sign
  in front of a negative number.\<close>

fun digits :: "nat \<Rightarrow> string" where
  "digits n =
     (if n < 10 then [''0123456789'' ! n]
      else digits (n div 10) @ [''0123456789'' ! (n mod 10)])"

declare digits.simps [simp del]

definition decimal :: "int \<Rightarrow> string" where
  "decimal i = (if i < 0 then CHR ''-'' # digits (nat (- i)) else digits (nat i))"

section \<open>Data model\<close>

text \<open>
  \<^verbatim>\<open>net/url.URL\<close>, the structured target of a request. The package reads
  \<open>Scheme\<close>, \<open>Host\<close> and \<open>Path\<close> and writes \<open>RawQuery\<close>; the remaining
  fields only travel through \<^verbatim>\<open>url.Parse\<close> and \<^verbatim>\<open>URL.String\<close>.
\<close>

record url_URL =
  Scheme :: string
  Opaque :: string
  User :: string
  Host :: string
  Path :: string
  RawQuery :: string
  Fragment :: string

text \<open>
  The three kinds of error value that end up in a request's \<open>err\<close> field:
  \<^item> \<open>errorString\<close>: an error made by \<^verbatim>\<open>fmt.Errorf\<close> or handed over by a
    collaborator (the deferred error of a multipart form), given by its text;
  \<^item> \<open>requestError\<close>: \<^verbatim>\<open>requestError{message, Request}\<close>;
  \<^item> \<open>responseError\<close>: \<^verbatim>\<open>responseError{message, Request, Response}\<close>.
  The \<^verbatim>\<open>Request\<close> and \<^verbatim>\<open>Response\<close> pointers inside the last two point back
  at the chain's own objects and are only read when the error is printed; the model keeps
  the \<open>message\<close>.
\<close>

datatype error =
  errorString string
| requestError string
| responseError string

definition handleRequestError :: "string \<Rightarrow> error" where
  "handleRequestError msg = requestError msg"

definition handleResponseError :: "string \<Rightarrow> error" where
  "handleResponseError msg = responseError msg"

text \<open>
  \<^verbatim>\<open>type Request struct\<close>. The pointer fields \<open>URL\<close>, \<open>data\<close> and the map
  \<open>headers\<close> may be nil (\<open>None\<close>); \<open>err\<close> is \<open>None\<close> for a nil error. The
  tracing span is kept as a flag: whether \<^verbatim>\<open>StartSpan\<close> has set it.
\<close>

record Request =
  URL :: "url_URL option"
  "method" :: string
  data :: "string option"
  headers :: "(string \<rightharpoonup> string) option"
  err :: "error option"
  span :: bool

text \<open>
  The body of a response, an \<^verbatim>\<open>io.ReadCloser\<close>: the bytes not yet read and the
  number of times \<^verbatim>\<open>Close\<close> has reached the stream that the transport opened.
  \<open>nop_closer\<close> is set once \<^verbatim>\<open>PrintJSON\<close> has replaced the body by
  \<^verbatim>\<open>ioutil.NopCloser\<close> of a buffer: from then on \<^verbatim>\<open>Close\<close> on the body does
  nothing, and the transport's stream can no longer be reached.
\<close>

record stream =
  unread :: string
  closes :: nat
  nop_closer :: bool

definition Close :: "stream \<Rightarrow> stream" where
  "Close s = (if nop_closer s then s else s\<lparr>closes := closes s + 1\<rparr>)"

text \<open>Reading a body to its end. A transport stream that has been closed yields an error
  instead of bytes.\<close>

definition ReadAll :: "stream \<Rightarrow> (string + string) \<times> stream" where
  "ReadAll s =
     (if 0 < closes s \<and> \<not> nop_closer s
      then (Inl ''http: read on closed response body'', s)
      else (Inr (unread s), s\<lparr>unread := []\<rparr>))"

text \<open>\<^verbatim>\<open>net/http.Response\<close>, as far as the package looks at it.\<close>

record http_Response =
  StatusCode :: int
  resp_Header :: "string \<rightharpoonup> string list"
  resp_Body :: "stream option"
  ContentLength :: int

text \<open>\<^verbatim>\<open>&http.Response{}\<close>: every field at its zero value.\<close>

definition zero_http_Response :: http_Response where
  "zero_http_Response =
     \<lparr>StatusCode = 0, resp_Header = Map.empty, resp_Body = None, ContentLength = 0\<rparr>"

text \<open>\<^verbatim>\<open>type Response struct { *http.Response; req *Request }\<close>. The embedded pointer
  is nil when the transport returned no response.\<close>

record Response =
  Response :: "http_Response option"
  req :: Request

text \<open>\<^verbatim>\<open>type Next struct { err error }\<close>.\<close>

record Next =
  next_err :: "error option"

text \<open>\<^verbatim>\<open>questmultipart.Form\<close>. The \<^verbatim>\<open>multipart.Writer\<close> is represented by what
  its \<^verbatim>\<open>FormDataContentType()\<close> reports.\<close>

record Form =
  Buffer :: "string option"
  Writer :: string
  Err :: "error option"

text \<open>What \<^verbatim>\<open>Send\<close> hands to \<^verbatim>\<open>http.Client.Do\<close>.\<close>

record http_Request =
  req_method :: string
  req_url :: string
  req_headers :: "string \<rightharpoonup> string"
  req_body :: string

section \<open>Collaborators\<close>

text \<open>
  The functions of the Go standard library that the package calls. They are parameters of
  the model; an error they return is given by its text (\<open>Inl\<close>, or \<open>Some\<close> where
  there is no other result).
  \<^item> \<open>url_Parse\<close>: \<^verbatim>\<open>url.Parse\<close>;
  \<^item> \<open>URL_String\<close>: \<^verbatim>\<open>(*URL).String\<close>;
  \<^item> \<open>Query_Add_Encode raw key value\<close>: \<^verbatim>\<open>q := u.Query(); q.Add(key, value); q.Encode()\<close>
    for a URL whose \<open>RawQuery\<close> is \<open>raw\<close>;
  \<^item> \<open>base64_EncodeToString\<close>: \<^verbatim>\<open>base64.StdEncoding.EncodeToString\<close>;
  \<^item> \<open>strconv_Quote\<close>: the verb \<^verbatim>\<open>%q\<close> on a string;
  \<^item> \<open>http_NewRequest method url\<close>: the error of \<^verbatim>\<open>http.NewRequest\<close>, if any;
  \<^item> \<open>client_Do\<close>: \<^verbatim>\<open>(&http.Client{}).Do\<close>, the transport: a response, an error,
    or both;
  \<^item> \<open>CanonicalMIMEHeaderKey\<close>: \<^verbatim>\<open>textproto.CanonicalMIMEHeaderKey\<close>, applied by
    \<^verbatim>\<open>http.Header.Get\<close> to its key.
\<close>

record env =
  url_Parse :: "string \<Rightarrow> string + url_URL"
  URL_String :: "url_URL \<Rightarrow> string"
  Query_Add_Encode :: "string \<Rightarrow> string \<Rightarrow> string \<Rightarrow> string"
  base64_EncodeToString :: "string \<Rightarrow> string"
  strconv_Quote :: "string \<Rightarrow> string"
  http_NewRequest :: "string \<Rightarrow> string \<Rightarrow> string option"
  client_Do :: "http_Request \<Rightarrow> http_Response option \<times> string option"
  CanonicalMIMEHeaderKey :: "string \<Rightarrow> string"

text \<open>\<^verbatim>\<open>http.Header.Get(key)\<close>: the first value stored under the canonical form of
  \<open>key\<close>, the empty string when there is none. A nil header reads as the empty map.\<close>

definition Header_Get :: "env \<Rightarrow> (string \<rightharpoonup> string list) \<Rightarrow> string \<Rightarrow> string" where
  "Header_Get E h key =
     (case h (CanonicalMIMEHeaderKey E key) of
        None \<Rightarrow> []
      | Some [] \<Rightarrow> []
      | Some (v # vs) \<Rightarrow> v)"

section \<open>Building a request\<close>

text \<open>
  The constructors return the new request. Every method of a request returns \<open>None\<close>
  where the Go code panics (a nil pointer is dereferenced, a nil map is written) and
  \<open>Some\<close> of the receiver's new state otherwise.
\<close>

definition New :: "env \<Rightarrow> string \<Rightarrow> string \<Rightarrow> Request" where
  "New E method' path =
     (case url_Parse E path of
        Inl e \<Rightarrow>
          \<lparr>URL = None, method = [], data = None, headers = None,
           err = Some (errorString (''error parsing url '' @ strconv_Quote E path @ '': '' @ e)),
           span = False\<rparr>
      | Inr u \<Rightarrow>
          \<lparr>URL = Some u, method = method', data = Some [],
           headers = Some [''Accept'' \<mapsto> ''application/json'', ''User-Agent'' \<mapsto> ''quest/v1''],
           err = None, span = False\<rparr>)"

definition Get :: "env \<Rightarrow> string \<Rightarrow> Request" where
  "Get E path = New E ''GET'' path"

definition Post :: "env \<Rightarrow> string \<Rightarrow> Request" where
  "Post E path = New E ''POST'' path"

definition Put :: "env \<Rightarrow> string \<Rightarrow> Request" where
  "Put E path = New E ''PUT'' path"

definition Delete :: "env \<Rightarrow> string \<Rightarrow> Request" where
  "Delete E path = New E ''DELETE'' path"

definition Next_New :: "env \<Rightarrow> Next \<Rightarrow> string \<Rightarrow> string \<Rightarrow> Request" where
  "Next_New E n method' path =
     (let req = New E method' path
      in if err req = None then req\<lparr>err := next_err n\<rparr> else req)"

definition Next_Get :: "env \<Rightarrow> Next \<Rightarrow> string \<Rightarrow> Request" where
  "Next_Get E n path = Next_New E n ''GET'' path"

definition Next_Post :: "env \<Rightarrow> Next \<Rightarrow> string \<Rightarrow> Request" where
  "Next_Post E n path = Next_New E n ''POST'' path"

definition Next_Put :: "env \<Rightarrow> Next \<Rightarrow> string \<Rightarrow> Request" where
  "Next_Put E n path = Next_New E n ''PUT'' path"

definition Next_Delete :: "env \<Rightarrow> Next \<Rightarrow> string \<Rightarrow> Request" where
  "Next_Delete E n path = Next_New E n ''DELETE'' path"

definition StartSpan :: "Request \<Rightarrow> Request option" where
  "StartSpan r = Some (r\<lparr>span := True\<rparr>)"

definition Header :: "Request \<Rightarrow> string \<Rightarrow> string \<Rightarrow> Request option" where
  "Header r key value =
     (if err r \<noteq> None then Some r
      else case headers r of
             None \<Rightarrow> None
           | Some h \<Rightarrow> Some (r\<lparr>headers := Some (h(key \<mapsto> value))\<rparr>))"

definition BasicAuth :: "env \<Rightarrow> Request \<Rightarrow> string \<Rightarrow> string \<Rightarrow> Request option" where
  "BasicAuth E r username password =
     (if err r \<noteq> None then Some r
      else let auth = username @ '':'' @ password
           in case headers r of
                None \<Rightarrow> None
              | Some h \<Rightarrow>
                  Some (r\<lparr>headers :=
                    Some (h(''Authorization'' \<mapsto> ''Basic '' @ base64_EncodeToString E auth))\<rparr>))"

definition QueryParam :: "env \<Rightarrow> Request \<Rightarrow> string \<Rightarrow> string \<Rightarrow> Request option" where
  "QueryParam E r key value =
     (if err r \<noteq> None then Some r
      else case URL r of
             None \<Rightarrow> None
           | Some u \<Rightarrow>
               Some (r\<lparr>URL := Some (u\<lparr>RawQuery := Query_Add_Encode E (RawQuery u) key value\<rparr>)\<rparr>))"

definition Param :: "env \<Rightarrow> Request \<Rightarrow> string \<Rightarrow> string \<Rightarrow> Request option" where
  "Param E r key value =
     (if err r \<noteq> None then Some r
      else case URL r of
             None \<Rightarrow> None
           | Some u \<Rightarrow>
               (let path = Replace_1 (URL_String E u) ('':'' @ key) value
                in case url_Parse E path of
                     Inl e \<Rightarrow> Some (r\<lparr>err := Some (handleRequestError e)\<rparr>)
                   | Inr url \<Rightarrow> Some (r\<lparr>URL := Some url\<rparr>)))"

definition Body :: "Request \<Rightarrow> string option \<Rightarrow> Request option" where
  "Body r value = (if err r \<noteq> None then Some r else Some (r\<lparr>data := value\<rparr>))"

text \<open>\<^verbatim>\<open>JSONBody(value)\<close>: the value is represented by what \<^verbatim>\<open>json.Marshal\<close>
  returns for it, the error text or the bytes.\<close>

definition JSONBody :: "Request \<Rightarrow> string + string \<Rightarrow> Request option" where
  "JSONBody r marshalled =
     (if err r \<noteq> None then Some r
      else case marshalled of
             Inl e \<Rightarrow> Some (r\<lparr>err := Some (handleRequestError e)\<rparr>)
           | Inr b \<Rightarrow>
               (case Header r ''Content-Type'' ''application/json'' of
                  None \<Rightarrow> None
                | Some r1 \<Rightarrow> Body r1 (Some b)))"

definition MultipartBody :: "Request \<Rightarrow> Form \<Rightarrow> Request option" where
  "MultipartBody r form =
     (if err r \<noteq> None then Some r
      else case Header r ''Content-Type'' (Writer form) of
             None \<Rightarrow> None
           | Some r1 \<Rightarrow> Body (r1\<lparr>err := Err form\<rparr>) (Buffer form))"

text \<open>
  \<^verbatim>\<open>Send\<close>. The list \<open>sent\<close> holds the requests that have reached the
  transport so far; \<^verbatim>\<open>client.Do\<close> appends to it. The loop that copies
  \<open>headers\<close> into the outgoing request is part of what the transport receives (a nil map
  is copied as the empty one). The tags written to the tracing span are not modelled.
\<close>

definition Send :: "env \<Rightarrow> Request \<Rightarrow> http_Request list \<Rightarrow> (Response \<times> http_Request list) option" where
  "Send E r sent =
     (if err r \<noteq> None then Some (\<lparr>Response = Some zero_http_Response, req = r\<rparr>, sent)
      else case URL r of
             None \<Rightarrow> None
           | Some u \<Rightarrow>
               (case http_NewRequest E (method r) (URL_String E u) of
                  Some e \<Rightarrow>
                    Some (\<lparr>Response = Some zero_http_Response,
                           req = r\<lparr>err := Some (handleRequestError e)\<rparr>\<rparr>, sent)
                | None \<Rightarrow>
                    (case data r of
                       None \<Rightarrow> None
                     | Some d \<Rightarrow>
                         (let hreq = \<lparr>req_method = method r, req_url = URL_String E u,
                                      req_headers = (case headers r of None \<Rightarrow> Map.empty | Some h \<Rightarrow> h),
                                      req_body = d\<rparr>
                          in case client_Do E hreq of
                               (resp, Some e) \<Rightarrow>
                                 Some (\<lparr>Response = resp,
                                        req = r\<lparr>err := Some (handleRequestError e)\<rparr>\<rparr>,
                                       sent @ [hreq])
                             | (resp, None) \<Rightarrow>
                                 Some (\<lparr>Response = resp, req = r\<rparr>, sent @ [hreq])))))"

section \<open>Inspecting a response\<close>

text \<open>
  The methods of \<^verbatim>\<open>Response\<close> in the single-file revision (the first
  \<^verbatim>\<open>package quest\<close> of \<^verbatim>\<open>quest.go\<close>). Each one looks at the \<open>err\<close> field of
  the request first. \<open>None\<close> is again a panic: the embedded \<^verbatim>\<open>*http.Response\<close> or
  its body is nil where the code dereferences it.
\<close>

text \<open>\<^verbatim>\<open>Proxy(w)\<close>: the writer is represented by the error, if any, that it answers
  to the bytes written to it.\<close>

definition Proxy :: "Response \<Rightarrow> (string \<Rightarrow> string option) \<Rightarrow> Response option" where
  "Proxy r w =
     (if err (req r) \<noteq> None then Some r
      else case Response r of
             None \<Rightarrow> None
           | Some h \<Rightarrow>
               (case resp_Body h of
                  None \<Rightarrow> None
                | Some s \<Rightarrow>
                    (let (got, s') = ReadAll s;
                         r' = r\<lparr>Response := Some (h\<lparr>resp_Body := Some s'\<rparr>)\<rparr>;
                         failure = (case got of Inl e \<Rightarrow> Some e | Inr b \<Rightarrow> w b)
                     in case failure of
                          None \<Rightarrow> Some r'
                        | Some e \<Rightarrow> Some (r'\<lparr>req := (req r)\<lparr>err := Some (handleResponseError e)\<rparr>\<rparr>))))"

definition ExpectSuccess :: "Response \<Rightarrow> Response option" where
  "ExpectSuccess r =
     (if err (req r) \<noteq> None then Some r
      else case Response r of
             None \<Rightarrow> None
           | Some h \<Rightarrow>
               (let actual = StatusCode h
                in if actual < 200 \<or> actual \<ge> 300
                   then Some (r\<lparr>req := (req r)\<lparr>err := Some (handleResponseError
                          (''Invalid StatusCode. Expected to be in 200 range, got ''
                             @ [CHR 0x27] @ decimal actual @ [CHR 0x27]))\<rparr>\<rparr>)
                   else Some r))"

definition ExpectStatusCode :: "Response \<Rightarrow> int \<Rightarrow> Response option" where
  "ExpectStatusCode r code =
     (if err (req r) \<noteq> None then Some r
      else case Response r of
             None \<Rightarrow> None
           | Some h \<Rightarrow>
               (let actual = StatusCode h
                in if actual \<noteq> code
                   then Some (r\<lparr>req := (req r)\<lparr>err := Some (handleResponseError
                          (''Invalid StatusCode. Expected to be '' @ [CHR 0x27] @ decimal code
                             @ [CHR 0x27] @ '', got '' @ [CHR 0x27] @ decimal actual
                             @ [CHR 0x27]))\<rparr>\<rparr>)
                   else Some r))"

definition ExpectHeader :: "env \<Rightarrow> Response \<Rightarrow> string \<Rightarrow> string \<Rightarrow> Response option" where
  "ExpectHeader E r key value =
     (if err (req r) \<noteq> None then Some r
      else case Response r of
             None \<Rightarrow> None
           | Some h \<Rightarrow>
               (let actual = Header_Get E (resp_Header h) key
                in if \<not> Contains actual value
                   then Some (r\<lparr>req := (req r)\<lparr>err := Some (handleResponseError
                          (''Invalid Header. Expected '' @ strconv_Quote E key
                             @ '' header to be '' @ strconv_Quote E value
                             @ '', got '' @ strconv_Quote E actual))\<rparr>\<rparr>)
                   else Some r))"

text \<open>The map of MIME type aliases inside \<^verbatim>\<open>ExpectType\<close>.\<close>

definition types :: "string \<rightharpoonup> string" where
  "types = map_of
     [(''html'', ''text/html''),
      (''json'', ''application/json''),
      (''xml'', ''application/xml''),
      (''text'', ''text/plain''),
      (''urlencoded'', ''application/x-www-form-urlencoded''),
      (''form'', ''application/x-www-form-urlencoded''),
      (''form-data'', ''application/x-www-form-urlencoded'')]"

definition ExpectType :: "env \<Rightarrow> Response \<Rightarrow> string \<Rightarrow> Response option" where
  "ExpectType E r value =
     (if err (req r) \<noteq> None then Some r
      else let typeValue = (case types value of Some v \<Rightarrow> v | None \<Rightarrow> value)
           in ExpectHeader E r ''Content-Type'' typeValue)"

text \<open>
  \<^verbatim>\<open>GetHeader\<close>, \<^verbatim>\<open>GetBody\<close> and \<^verbatim>\<open>GetJSON\<close> store through a pointer of the
  caller. The second component of their result is the value stored, \<open>None\<close> when nothing
  is stored.
\<close>

definition GetHeader :: "env \<Rightarrow> Response \<Rightarrow> string \<Rightarrow> (Response \<times> string option) option" where
  "GetHeader E r key =
     (if err (req r) \<noteq> None then Some (r, None)
      else case Response r of
             None \<Rightarrow> None
           | Some h \<Rightarrow> Some (r, Some (Header_Get E (resp_Header h) key)))"

text \<open>\<^verbatim>\<open>PrintJSON\<close>: what is printed is not modelled; the body is read to its end and
  replaced by a buffer of the bytes read, behind a \<^verbatim>\<open>NopCloser\<close>.\<close>

definition PrintJSON :: "Response \<Rightarrow> Response option" where
  "PrintJSON r =
     (if err (req r) \<noteq> None then Some r
      else case Response r of
             None \<Rightarrow> None
           | Some h \<Rightarrow>
               (case resp_Body h of
                  None \<Rightarrow> None
                | Some s \<Rightarrow>
                    (let (got, s') = ReadAll s;
                         buffer = (case got of Inl e \<Rightarrow> [] | Inr b \<Rightarrow> b)
                     in Some (r\<lparr>Response :=
                          Some (h\<lparr>resp_Body := Some (s'\<lparr>unread := buffer, nop_closer := True\<rparr>)\<rparr>)\<rparr>))))"

definition GetBody :: "Response \<Rightarrow> (Response \<times> string option) option" where
  "GetBody r =
     (if err (req r) \<noteq> None then Some (r, None)
      else case Response r of
             None \<Rightarrow> None
           | Some h \<Rightarrow>
               (case resp_Body h of
                  None \<Rightarrow> None
                | Some s \<Rightarrow>
                    (let (got, s') = ReadAll s;
                         into = (case got of Inl e \<Rightarrow> [] | Inr b \<Rightarrow> b)
                     in Some (r\<lparr>Response := Some (h\<lparr>resp_Body := Some (Close s')\<rparr>)\<rparr>, Some into))))"

text \<open>\<^verbatim>\<open>GetJSON(into)\<close>: the target is represented by the error, if any, that
  \<^verbatim>\<open>Decode\<close> returns on the bytes of the body. The decoder is taken to read the body
  to its end.\<close>

definition GetJSON :: "Response \<Rightarrow> (string \<Rightarrow> string option) \<Rightarrow> Response option" where
  "GetJSON r decode =
     (if err (req r) \<noteq> None then Some r
      else case Response r of
             None \<Rightarrow> None
           | Some h \<Rightarrow>
               (case resp_Body h of
                  None \<Rightarrow> None
                | Some s \<Rightarrow>
                    (let (got, s') = ReadAll s;
                         r' = r\<lparr>Response := Some (h\<lparr>resp_Body := Some (Close s')\<rparr>)\<rparr>;
                         failure = (case got of Inl e \<Rightarrow> Some e | Inr b \<Rightarrow> decode b)
                     in case failure of
                          None \<Rightarrow> Some r'
                        | Some e \<Rightarrow> Some (r'\<lparr>req := (req r)\<lparr>err := Some (handleResponseError e)\<rparr>\<rparr>))))"

definition Next :: "Response \<Rightarrow> Next" where
  "Next r = \<lparr>next_err = err (req r)\<rparr>"

definition Done :: "Response \<Rightarrow> error option" where
  "Done r = err (req r)"

subsection \<open>The split revision of the response methods\<close>

text \<open>
  The second \<^verbatim>\<open>package quest\<close> of \<^verbatim>\<open>quest.go\<close> holds the response methods
  once more. There \<^verbatim>\<open>GetBody\<close> and \<^verbatim>\<open>GetJSON\<close> no longer close the body and
  \<^verbatim>\<open>Done\<close> does, before it returns the error; \<^verbatim>\<open>Next\<close> and the expectations
  are as above. \<open>Done_v2\<close> returns the error together with the response it leaves behind.
\<close>

definition GetBody_v2 :: "Response \<Rightarrow> (Response \<times> string option) option" where
  "GetBody_v2 r =
     (if err (req r) \<noteq> None then Some (r, None)
      else case Response r of
             None \<Rightarrow> None
           | Some h \<Rightarrow>
               (case resp_Body h of
                  None \<Rightarrow> None
                | Some s \<Rightarrow>
                    (let (got, s') = ReadAll s;
                         into = (case got of Inl e \<Rightarrow> [] | Inr b \<Rightarrow> b)
                     in Some (r\<lparr>Response := Some (h\<lparr>resp_Body := Some s'\<rparr>)\<rparr>, Some into))))"

definition GetJSON_v2 :: "Response \<Rightarrow> (string \<Rightarrow> string option) \<Rightarrow> Response option" where
  "GetJSON_v2 r decode =
     (if err (req r) \<noteq> None then Some r
      else case Response r of
             None \<Rightarrow> None
           | Some h \<Rightarrow>
               (case resp_Body h of
                  None \<Rightarrow> None
                | Some s \<Rightarrow>
                    (let (got, s') = ReadAll s;
                         r' = r\<lparr>Response := Some (h\<lparr>resp_Body := Some s'\<rparr>)\<rparr>;
                         failure = (case got of Inl e \<Rightarrow> Some e | Inr b \<Rightarrow> decode b)
                     in case failure of
                          None \<Rightarrow> Some r'
                        | Some e \<Rightarrow> Some (r'\<lparr>req := (req r)\<lparr>err := Some (handleResponseError e)\<rparr>\<rparr>))))"

definition Done_v2 :: "Response \<Rightarrow> (error option \<times> Response) option" where
  "Done_v2 r =
     (case Response r of
        None \<Rightarrow> None
      | Some h \<Rightarrow>
          (case resp_Body h of
             None \<Rightarrow> None
           | Some s \<Rightarrow>
               Some (err (req r), r\<lparr>Response := Some (h\<lparr>resp_Body := Some (Close s)\<rparr>)\<rparr>)))"

text \<open>How often the stream behind a response has been closed.\<close>

definition close_count :: "Response \<Rightarrow> nat" where
  "close_count r =
     (case Response r of
        None \<Rightarrow> 0
      | Some h \<Rightarrow> (case resp_Body h of None \<Rightarrow> 0 | Some s \<Rightarrow> closes s))"

section \<open>Chains\<close>

text \<open>
  A chain is a request, builder calls on it, \<^verbatim>\<open>Send\<close>, calls on the response, and
  \<^verbatim>\<open>Done\<close>. The calls are data here, so that a statement can range over every
  sequence of them. A panic of one call ends the chain (\<open>None\<close>). The values that
  \<^verbatim>\<open>GetHeader\<close> and \<^verbatim>\<open>GetBody\<close> store for the caller are dropped.
\<close>

datatype request_op =
  OpStartSpan
| OpHeader string string
| OpBasicAuth string string
| OpQueryParam string string
| OpParam string string
| OpBody "string option"
| OpJSONBody "string + string"
| OpMultipartBody Form

fun apply_request_op :: "env \<Rightarrow> Request \<Rightarrow> request_op \<Rightarrow> Request option" where
  "apply_request_op E r OpStartSpan = StartSpan r"
| "apply_request_op E r (OpHeader key value) = Header r key value"
| "apply_request_op E r (OpBasicAuth username password) = BasicAuth E r username password"
| "apply_request_op E r (OpQueryParam key value) = QueryParam E r key value"
| "apply_request_op E r (OpParam key value) = Param E r key value"
| "apply_request_op E r (OpBody value) = Body r value"
| "apply_request_op E r (OpJSONBody marshalled) = JSONBody r marshalled"
| "apply_request_op E r (OpMultipartBody form) = MultipartBody r form"

fun run_request_ops :: "env \<Rightarrow> Request \<Rightarrow> request_op list \<Rightarrow> Request option" where
  "run_request_ops E r [] = Some r"
| "run_request_ops E r (op # ops) =
     (case apply_request_op E r op of
        None \<Rightarrow> None
      | Some r' \<Rightarrow> run_request_ops E r' ops)"

datatype response_op =
  OpProxy "string \<Rightarrow> string option"
| OpExpectSuccess
| OpExpectStatusCode int
| OpExpectHeader string string
| OpExpectType string
| OpGetHeader string
| OpPrintJSON
| OpGetBody
| OpGetJSON "string \<Rightarrow> string option"

fun apply_response_op :: "env \<Rightarrow> Response \<Rightarrow> response_op \<Rightarrow> Response option" where
  "apply_response_op E r (OpProxy w) = Proxy r w"
| "apply_response_op E r OpExpectSuccess = ExpectSuccess r"
| "apply_response_op E r (OpExpectStatusCode code) = ExpectStatusCode r code"
| "apply_response_op E r (OpExpectHeader key value) = ExpectHeader E r key value"
| "apply_response_op E r (OpExpectType value) = ExpectType E r value"
| "apply_response_op E r (OpGetHeader key) = map_option fst (GetHeader E r key)"
| "apply_response_op E r OpPrintJSON = PrintJSON r"
| "apply_response_op E r OpGetBody = map_option fst (GetBody r)"
| "apply_response_op E r (OpGetJSON decode) = GetJSON r decode"

fun run_response_ops :: "env \<Rightarrow> Response \<Rightarrow> response_op list \<Rightarrow> Response option" where
  "run_response_ops E r [] = Some r"
| "run_response_ops E r (op # ops) =
     (case apply_response_op E r op of
        None \<Rightarrow> None
      | Some r' \<Rightarrow> run_response_ops E r' ops)"

text \<open>The whole chain: the error that \<^verbatim>\<open>Done\<close> returns, the response at that moment
  and the requests that reached the transport.\<close>

definition chain ::
  "env \<Rightarrow> Request \<Rightarrow> request_op list \<Rightarrow> http_Request list \<Rightarrow> response_op list
     \<Rightarrow> (error option \<times> Response \<times> http_Request list) option" where
  "chain E r bs sent rs =
     (case run_request_ops E r bs of
        None \<Rightarrow> None
      | Some r1 \<Rightarrow>
          (case Send E r1 sent of
             None \<Rightarrow> None
           | Some (resp, sent') \<Rightarrow>
               (case run_response_ops E resp rs of
                  None \<Rightarrow> None
                | Some resp' \<Rightarrow> Some (Done resp', resp', sent'))))"

section \<open>The alias table as the specification words it\<close>

text \<open>
  The specification of \<^verbatim>\<open>ExpectType\<close>: html stands for text/html, json for
  application/json, xml for application/xml, text for text/plain, and urlencoded, form and
  form-data for application/x-www-form-urlencoded; any other value stands for itself.
\<close>

definition spec_alias :: "string \<Rightarrow> string" where
  "spec_alias a =
     (if a = ''html'' then ''text/html''
      else if a = ''json'' then ''application/json''
      else if a = ''xml'' then ''application/xml''
      else if a = ''text'' then ''text/plain''
      else if a = ''urlencoded'' \<or> a = ''form'' \<or> a = ''form-data''
           then ''application/x-www-form-urlencoded''
      else a)"

section \<open>Sample collaborators\<close>

text \<open>
  A concrete instance of the collaborators, on which the model is run on examples. It is
  not a model of the Go library: each function agrees with its Go counterpart on the
  inputs named here, and the examples below stay inside them.
  \<^item> \<open>sample_Parse\<close>: strings of the shape \<^verbatim>\<open>scheme://host[:port][/path][?query]\<close>
    with a lower-case scheme and without escapes, user information or fragment are split
    as \<^verbatim>\<open>url.Parse\<close> splits them. A leading colon and a port that is not a number
    are errors, as they are there; so is a percent sign in the path, which
    \<^verbatim>\<open>url.Parse\<close> rejects when no two hexadecimal digits follow it (a well-formed
    escape is outside the sample). The error texts are the inner messages, without the
    \<^verbatim>\<open>parse "...":\<close> in front. Any other string is reported as not covered.
  \<^item> \<open>sample_String\<close>: the rendering of such a URL.
  \<^item> \<open>sample_Do\<close>: a server in the manner of the one in \<^verbatim>\<open>quest_test.go\<close>: it
    answers every request with the body \<^verbatim>\<open>Hello, world!\<close>, with status 400 when the
    query has \<^verbatim>\<open>bad=\<close>, 404 under \<^verbatim>\<open>/missing\<close> and 200 otherwise. A URL that
    is not \<^verbatim>\<open>http\<close> is a transport error without a response.
  \<^item> \<open>sample_base64\<close>: standard base64 with padding.
  \<^item> \<open>sample_Quote\<close>: \<^verbatim>\<open>%q\<close> on printable ASCII.
  \<^item> the query encoder appends \<^verbatim>\<open>key=value\<close> (keys added in ascending order, no
    reserved characters); \<^verbatim>\<open>http.NewRequest\<close> rejects a method with a space in it;
    header keys are taken to be in canonical form already.
\<close>

fun Cut :: "string \<Rightarrow> string \<Rightarrow> (string \<times> string) option" where
  "Cut [] sep = (if sep = [] then Some ([], []) else None)"
| "Cut (c # cs) sep =
     (if prefix sep (c # cs) then Some ([], drop (length sep) (c # cs))
      else case Cut cs sep of
             None \<Rightarrow> None
           | Some (before, after) \<Rightarrow> Some (c # before, after))"

definition sample_Parse :: "string \<Rightarrow> string + url_URL" where
  "sample_Parse s =
     (if prefix '':'' s then Inl ''missing protocol scheme''
      else case Cut s ''://'' of
             None \<Rightarrow> Inl ''not covered by sample_Parse''
           | Some (scheme, rest) \<Rightarrow>
               (let (hier, query) = (case Cut rest ''?'' of None \<Rightarrow> (rest, []) | Some p \<Rightarrow> p);
                    host = takeWhile (\<lambda>c. c \<noteq> CHR ''/'') hier;
                    path = dropWhile (\<lambda>c. c \<noteq> CHR ''/'') hier;
                    port = (if CHR '':'' \<in> set host
                            then rev (takeWhile (\<lambda>c. c \<noteq> CHR '':'') (rev host)) else [])
                in if \<not> list_all (\<lambda>c. c \<in> set ''0123456789'') port
                   then Inl (''invalid port '' @ [CHR 0x22, CHR '':''] @ port @ [CHR 0x22]
                               @ '' after host'')
                   else if CHR ''%'' \<in> set path
                   then Inl ''invalid URL escape''
                   else Inr \<lparr>Scheme = scheme, Opaque = [], User = [], Host = host, Path = path,
                             RawQuery = query, Fragment = []\<rparr>))"

definition sample_String :: "url_URL \<Rightarrow> string" where
  "sample_String u =
     Scheme u @ ''://'' @ Host u @ Path u @ (if RawQuery u = [] then [] else CHR ''?'' # RawQuery u)"

definition sample_Do :: "http_Request \<Rightarrow> http_Response option \<times> string option" where
  "sample_Do hreq =
     (if prefix ''http://'' (req_url hreq)
      then (Some \<lparr>StatusCode = (if Contains (req_url hreq) ''bad='' then 400
                                else if Contains (req_url hreq) ''/missing'' then 404 else 200),
                  resp_Header = [''Content-Type'' \<mapsto> [''application/json; charset=utf-8'']],
                  resp_Body = Some \<lparr>unread = ''Hello, world!'', closes = 0, nop_closer = False\<rparr>,
                  ContentLength = 13\<rparr>, None)
      else (None, Some ''unsupported protocol scheme''))"

definition b64_alphabet :: string where
  "b64_alphabet = ''ABCDEFGHIJKLMNOPQRSTUVWXYZabcdefghijklmnopqrstuvwxyz0123456789+/''"

fun b64 :: "nat list \<Rightarrow> string" where
  "b64 (a # b # c # rest) =
     [b64_alphabet ! (a div 4), b64_alphabet ! ((a mod 4) * 16 + b div 16),
      b64_alphabet ! ((b mod 16) * 4 + c div 64), b64_alphabet ! (c mod 64)] @ b64 rest"
| "b64 [a, b] =
     [b64_alphabet ! (a div 4), b64_alphabet ! ((a mod 4) * 16 + b div 16),
      b64_alphabet ! ((b mod 16) * 4), CHR ''='']"
| "b64 [a] = [b64_alphabet ! (a div 4), b64_alphabet ! ((a mod 4) * 16), CHR ''='', CHR ''='']"
| "b64 [] = []"

definition sample_base64 :: "string \<Rightarrow> string" where
  "sample_base64 s = b64 (map of_char s)"

definition sample_Quote :: "string \<Rightarrow> string" where
  "sample_Quote s =
     [CHR 0x22]
       @ concat (map (\<lambda>c. if c = CHR 0x22 \<or> c = CHR 0x5C then [CHR 0x5C, c] else [c]) s)
       @ [CHR 0x22]"

definition sample_env :: env where
  "sample_env =
     \<lparr>url_Parse = sample_Parse,
      URL_String = sample_String,
      Query_Add_Encode =
        (\<lambda>raw key value. (if raw = [] then [] else raw @ ''&'') @ key @ ''='' @ value),
      base64_EncodeToString = sample_base64,
      strconv_Quote = sample_Quote,
      http_NewRequest =
        (\<lambda>m u. if CHR '' '' \<in> set m then Some ''net/http: invalid method'' else None),
      client_Do = sample_Do,
      CanonicalMIMEHeaderKey = (\<lambda>key. key)\<rparr>"

text \<open>The response that \<^verbatim>\<open>Get(url).Send()\<close> yields against the sample server.\<close>

definition served :: "string \<Rightarrow> Response" where
  "served url =
     (case Send sample_env (Get sample_env url) [] of
        Some (resp, sent) \<Rightarrow> resp
      | None \<Rightarrow> \<lparr>Response = None, req = Get sample_env url\<rparr>)"

text \<open>A multipart form whose construction has failed: a file part whose encoder returned
  an error, as \<^verbatim>\<open>AddFile\<close> stores it in \<open>Err\<close>.\<close>

definition failed_form :: Form where
  "failed_form =
     \<lparr>Buffer = Some ''--b'', Writer = ''multipart/form-data; boundary=b'',
      Err = Some (errorString ''json: unsupported type: chan int'')\<rparr>"

text \<open>The value of a request header, \<open>None\<close> when the key is not set.\<close>

definition header_of :: "Request \<Rightarrow> string \<Rightarrow> string option" where
  "header_of r key = (case headers r of None \<Rightarrow> None | Some h \<Rightarrow> h key)"

section \<open>Facts about the string functions\<close>

lemma Contains_sublist: "Contains s substr = sublist substr s"
  by (induction s) (simp_all add: sublist_Cons_right)

lemma Contains_iff: "Contains s substr \<longleftrightarrow> (\<exists>ps ss. s = ps @ substr @ ss)"
  by (simp add: Contains_sublist sublist_def)

lemma Contains_middle: "Contains (a @ m @ b) m"
  unfolding Contains_iff by blast

lemma Replace_1_absent: "\<not> Contains s old \<Longrightarrow> Replace_1 s old new = s"
  by (induction s) auto

text \<open>With an occurrence of \<open>old\<close> at \<open>ps\<close> and none further left, \<open>Replace_1\<close>
  rewrites exactly that occurrence.\<close>

lemma Replace_1_leftmost:
  "s = ps @ old @ ss \<Longrightarrow> (\<forall>ps' ss'. s = ps' @ old @ ss' \<longrightarrow> length ps \<le> length ps')
     \<Longrightarrow> Replace_1 s old new = ps @ new @ ss"
proof (induction ps arbitrary: s)
  case Nil
  note first = Nil.prems(1)
  show ?case
  proof (cases s)
    assume "s = []"
    with first show ?thesis by simp
  next
    fix c cs assume s: "s = c # cs"
    have "prefix old (c # cs)" using first s by (simp add: prefix_def)
    moreover have "drop (length old) (c # cs) = ss" using first s by simp
    ultimately show ?thesis using s by simp
  qed
next
  case (Cons p ps)
  have np: "\<not> prefix old s"
  proof
    assume "prefix old s"
    then obtain t where "s = [] @ old @ t" by (auto simp: prefix_def)
    with Cons.prems(2) have "length (p # ps) \<le> length ([]::string)" by blast
    then show False by simp
  qed
  let ?t = "ps @ old @ ss"
  have s: "s = p # ?t" using Cons.prems(1) by simp
  have "\<forall>ps' ss'. ?t = ps' @ old @ ss' \<longrightarrow> length ps \<le> length ps'"
  proof (intro allI impI)
    fix ps' ss' assume "?t = ps' @ old @ ss'"
    then have "s = (p # ps') @ old @ ss'" using s by simp
    with Cons.prems(2) have "length (p # ps) \<le> length (p # ps')" by blast
    then show "length ps \<le> length ps'" by simp
  qed
  then have "Replace_1 ?t old new = ps @ new @ ss"
    using Cons.IH by blast
  then show ?case using np s by simp
qed

text \<open>No occurrence starts left of \<open>ps\<close> when \<open>old\<close> does not occur in \<open>ps\<close>
  followed by all but the last byte of \<open>old\<close>.\<close>

lemma leftmost_by_Contains:
  assumes "old \<noteq> []" and "\<not> Contains (ps @ butlast old) old"
    and "ps @ old @ ss = ps' @ old @ ss'"
  shows "length ps \<le> length ps'"
proof (rule ccontr)
  assume "\<not> length ps \<le> length ps'"
  then have len: "length (ps' @ old) \<le> length (ps @ butlast old)"
    using assms(1) by (cases old) auto
  have p1: "prefix (ps' @ old) (ps @ old @ ss)"
    using assms(3) by (simp add: prefix_def)
  have "ps @ old @ ss = (ps @ butlast old) @ ([last old] @ ss)"
    using assms(1) by simp
  then have p2: "prefix (ps @ butlast old) (ps @ old @ ss)"
    unfolding prefix_def by blast
  from prefix_same_cases [OF p1 p2] have "prefix (ps' @ old) (ps @ butlast old)"
  proof
    assume "prefix (ps' @ old) (ps @ butlast old)"
    then show ?thesis .
  next
    assume "prefix (ps @ butlast old) (ps' @ old)"
    with len have "ps @ butlast old = ps' @ old"
      by (metis prefix_length_le le_antisym prefix_length_prefix prefix_order.eq_iff p1 p2)
    then show ?thesis by simp
  qed
  then obtain zs where "ps @ butlast old = ps' @ old @ zs"
    by (auto simp: prefix_def)
  then have "Contains (ps @ butlast old) old"
    unfolding Contains_iff by blast
  with assms(2) show False by simp
qed

lemma Replace_1_at:
  assumes "old \<noteq> []" and "s = ps @ old @ ss" and "\<not> Contains (ps @ butlast old) old"
  shows "Replace_1 s old new = ps @ new @ ss"
proof (rule Replace_1_leftmost [OF assms(2)], intro allI impI)
  fix ps' ss' assume "s = ps' @ old @ ss'"
  with assms(2) have "ps @ old @ ss = ps' @ old @ ss'" by simp
  from leftmost_by_Contains [OF assms(1) assms(3) this] show "length ps \<le> length ps'" .
qed

text \<open>The digits of \<open>n\<close> read back as \<open>n\<close>.\<close>

lemma digit_value: "d < 10 \<Longrightarrow> of_char (''0123456789'' ! d) = (48::nat) + d"
proof -
  assume "d < 10"
  then have "d \<in> {0, 1, 2, 3, 4, 5, 6, 7, 8, 9}" by auto
  then show ?thesis by auto
qed

lemma digits_value:
  "foldl (\<lambda>a c. 10 * a + (of_char c - 48)) 0 (digits n) = n"
proof (induction n rule: digits.induct)
  case (1 n)
  show ?case
  proof (cases "n < 10")
    case True
    then show ?thesis by (subst digits.simps) (simp add: digit_value)
  next
    case False
    then have "foldl (\<lambda>a c. 10 * a + (of_char c - 48)) 0 (digits (n div 10)) = n div 10"
      using 1 by simp
    moreover have "n mod 10 < 10" by simp
    ultimately show ?thesis using False
      by (subst digits.simps) (simp add: digit_value)
  qed
qed

lemma types_resolve: "(case types v of Some x \<Rightarrow> x | None \<Rightarrow> v) = spec_alias v"
  by (simp add: types_def spec_alias_def)

section \<open>The short circuit\<close>

lemmas request_op_defs =
  StartSpan_def Header_def BasicAuth_def QueryParam_def Param_def Body_def JSONBody_def
  MultipartBody_def

lemmas response_op_defs =
  Proxy_def ExpectSuccess_def ExpectStatusCode_def ExpectHeader_def ExpectType_def
  GetHeader_def PrintJSON_def GetBody_def GetJSON_def

lemmas eval_defs =
  sample_env_def sample_Parse_def sample_String_def sample_Do_def served_def
  Get_def Post_def New_def Send_def request_op_defs response_op_defs
  handleRequestError_def handleResponseError_def Header_Get_def
  decimal_def digits.simps zero_http_Response_def

lemma New_failed:
  "url_Parse E path = Inl m \<Longrightarrow>
   New E meth path =
     \<lparr>URL = None, method = [], data = None, headers = None,
      err = Some (errorString (''error parsing url '' @ strconv_Quote E path @ '': '' @ m)),
      span = False\<rparr>"
  by (simp add: New_def)

lemma New_ok:
  "url_Parse E path = Inr u \<Longrightarrow>
   New E meth path =
     \<lparr>URL = Some u, method = meth, data = Some [],
      headers = Some [''Accept'' \<mapsto> ''application/json'', ''User-Agent'' \<mapsto> ''quest/v1''],
      err = None, span = False\<rparr>"
  by (simp add: New_def)

text \<open>A builder call on a failed request returns, and leaves target, method, headers,
  body and the failure as they are.\<close>

lemma apply_request_op_failed:
  assumes "err r = Some e"
  shows "\<exists>r'. apply_request_op E r op = Some r' \<and> URL r' = URL r \<and> method r' = method r \<and>
              headers r' = headers r \<and> data r' = data r \<and> err r' = Some e"
  using assms by (cases op) (simp_all add: request_op_defs)

lemma run_request_ops_failed:
  assumes "err r = Some e"
  shows "\<exists>r'. run_request_ops E r ops = Some r' \<and> URL r' = URL r \<and> method r' = method r \<and>
              headers r' = headers r \<and> data r' = data r \<and> err r' = Some e"
  using assms
proof (induction ops arbitrary: r)
  case Nil
  then show ?case by simp
next
  case (Cons op ops)
  from apply_request_op_failed [OF Cons.prems, of E op]
  obtain r1 where r1: "apply_request_op E r op = Some r1" "URL r1 = URL r" "method r1 = method r"
      "headers r1 = headers r" "data r1 = data r" "err r1 = Some e"
    by blast
  from Cons.IH [OF r1(6)] r1 show ?case by auto
qed

lemma Send_failed:
  "err r = Some e \<Longrightarrow> Send E r sent = Some (\<lparr>Response = Some zero_http_Response, req = r\<rparr>, sent)"
  by (simp add: Send_def)

lemma apply_response_op_failed:
  "err (req r) = Some e \<Longrightarrow> apply_response_op E r op = Some r"
  by (cases op) (simp_all add: response_op_defs)

lemma run_response_ops_failed:
  "err (req r) = Some e \<Longrightarrow> run_response_ops E r ops = Some r"
  by (induction ops) (simp_all add: apply_response_op_failed)

lemma run_request_ops_append:
  "run_request_ops E r (as @ bs) =
     (case run_request_ops E r as of None \<Rightarrow> None | Some r1 \<Rightarrow> run_request_ops E r1 bs)"
  by (induction as arbitrary: r) (simp_all split: option.splits)

lemma run_response_ops_append:
  "run_response_ops E r (as @ bs) =
     (case run_response_ops E r as of None \<Rightarrow> None | Some r1 \<Rightarrow> run_response_ops E r1 bs)"
  by (induction as arbitrary: r) (simp_all split: option.splits)

lemma chain_append:
  "run_request_ops E r0 pre = Some r \<Longrightarrow> chain E r0 (pre @ bs) sent rs = chain E r bs sent rs"
  by (simp add: chain_def run_request_ops_append)

lemma chain_failed:
  assumes "err r = Some e"
  shows "\<exists>r'. chain E r bs sent rs =
                Some (Some e, \<lparr>Response = Some zero_http_Response, req = r'\<rparr>, sent) \<and>
              URL r' = URL r \<and> method r' = method r \<and> headers r' = headers r \<and>
              data r' = data r"
proof -
  from run_request_ops_failed [OF assms, of E bs]
  obtain r' where r': "run_request_ops E r bs = Some r'" "URL r' = URL r" "method r' = method r"
      "headers r' = headers r" "data r' = data r" "err r' = Some e"
    by blast
  have "chain E r bs sent rs =
          Some (Some e, \<lparr>Response = Some zero_http_Response, req = r'\<rparr>, sent)"
    using r'(1,6) by (simp add: chain_def Send_failed run_response_ops_failed Done_def)
  with r' show ?thesis by blast
qed

lemma Param_eval:
  assumes "err r = None" and "URL r = Some u"
  shows "Param E r key value =
           Some (case url_Parse E (Replace_1 (URL_String E u) ('':'' @ key) value) of
                   Inl m \<Rightarrow> r\<lparr>err := Some (requestError m)\<rparr>
                 | Inr u' \<Rightarrow> r\<lparr>URL := Some u'\<rparr>)"
  using assms by (simp add: Param_def handleRequestError_def split: sum.splits)

lemma MultipartBody_eval:
  assumes "err r = None" and "headers r = Some h"
  shows "MultipartBody r form =
           Some (r\<lparr>headers := Some (h(''Content-Type'' \<mapsto> Writer form)),
                   err := Err form,
                   data := (if Err form = None then Buffer form else data r)\<rparr>)"
  using assms by (simp add: MultipartBody_def Header_def Body_def)

section \<open>The claims\<close>

subsection \<open>C1: the first failure is final\<close>

text \<open>
  Claim C1. Once an error \<open>e\<close> is recorded in the request's \<open>err\<close> field, every later
  operation returns with target, method, headers and body unchanged, and \<^verbatim>\<open>Done\<close>
  returns \<open>e\<close>. For a request \<open>r\<close> with \<open>err r = Some e\<close>:
  every builder call returns a request with the same \<open>URL\<close>, \<open>method\<close>, \<open>headers\<close>,
  \<open>data\<close> and \<open>err\<close>; \<^verbatim>\<open>Send\<close> returns the placeholder response around \<open>r\<close>;
  on any response whose request is \<open>r\<close> (written \<open>resp\<lparr>req := r\<rparr>\<close>) every response
  call, and every sequence of them, returns that response itself and \<^verbatim>\<open>Done\<close> returns
  \<open>e\<close>; a whole chain from \<open>r\<close> ends in \<open>e\<close> with the four fields untouched. The last
  two conjuncts say the same of the moment the failure appears: if a prefix of the calls
  leaves the failure \<open>e\<close> behind, \<^verbatim>\<open>Done\<close> after any further calls returns \<open>e\<close>.
\<close>

theorem first_failure_is_final:
  assumes "err r = Some e"
  shows "(\<exists>r'. apply_request_op E r op = Some r' \<and> URL r' = URL r \<and> method r' = method r \<and>
               headers r' = headers r \<and> data r' = data r \<and> err r' = Some e) \<and>
         Send E r sent = Some (\<lparr>Response = Some zero_http_Response, req = r\<rparr>, sent) \<and>
         apply_response_op E (resp\<lparr>req := r\<rparr>) rop = Some (resp\<lparr>req := r\<rparr>) \<and>
         run_response_ops E (resp\<lparr>req := r\<rparr>) rs = Some (resp\<lparr>req := r\<rparr>) \<and>
         Done (resp\<lparr>req := r\<rparr>) = Some e \<and>
         (\<exists>r'. chain E r bs sent rs =
                 Some (Some e, \<lparr>Response = Some zero_http_Response, req = r'\<rparr>, sent) \<and>
               URL r' = URL r \<and> method r' = method r \<and> headers r' = headers r \<and>
               data r' = data r) \<and>
         (run_request_ops E r0 pre = Some r \<longrightarrow>
            map_option fst (chain E r0 (pre @ bs) sent rs) = Some (Some e)) \<and>
         (run_response_ops E resp0 rpre = Some (resp\<lparr>req := r\<rparr>) \<longrightarrow>
            map_option Done (run_response_ops E resp0 (rpre @ rs)) = Some (Some e))"
proof -
  from chain_failed [OF assms, of E bs sent rs]
  obtain r' where c: "chain E r bs sent rs =
      Some (Some e, \<lparr>Response = Some zero_http_Response, req = r'\<rparr>, sent)"
    "URL r' = URL r" "method r' = method r" "headers r' = headers r" "data r' = data r"
    by blast
  have f: "err (req (resp\<lparr>req := r\<rparr>)) = Some e" using assms by simp
  have p: "map_option fst (chain E r0 (pre @ bs) sent rs) = Some (Some e)"
    if "run_request_ops E r0 pre = Some r"
    using chain_append [OF that, of bs sent rs] c(1) by simp
  have q: "map_option Done (run_response_ops E resp0 (rpre @ rs)) = Some (Some e)"
    if "run_response_ops E resp0 rpre = Some (resp\<lparr>req := r\<rparr>)"
    using that assms by (simp add: run_response_ops_append run_response_ops_failed [OF f] Done_def)
  show ?thesis
    using apply_request_op_failed [OF assms, of E op] c p q assms
    by (simp add: Send_failed apply_response_op_failed [OF f] run_response_ops_failed [OF f] Done_def)
qed

text \<open>
  Witness for C1. \<^verbatim>\<open>Get("http://x/:id").Param("id", "%zz")\<close> records a failure;
  a header and a JSON body that cannot be marshalled follow, and \<^verbatim>\<open>Done\<close> still
  returns the failure of \<^verbatim>\<open>Param\<close>. On the response side \<^verbatim>\<open>ExpectStatusCode(200)\<close>
  fails on a 404; \<^verbatim>\<open>ExpectSuccess\<close> and a failing \<^verbatim>\<open>GetJSON\<close> follow, and
  \<^verbatim>\<open>Done\<close> returns the failure of \<^verbatim>\<open>ExpectStatusCode\<close>.
\<close>

theorem first_failure_is_final_witness:
  "run_request_ops sample_env (Get sample_env ''http://x/:id'') [OpParam ''id'' ''%zz''] =
     Some ((Get sample_env ''http://x/:id'')\<lparr>err := Some (requestError ''invalid URL escape'')\<rparr>) \<and>
   map_option fst (chain sample_env (Get sample_env ''http://x/:id'')
       ([OpParam ''id'' ''%zz''] @ [OpHeader ''A'' ''b'', OpJSONBody (Inl ''unsupported type'')])
       [] [OpExpectSuccess, OpGetBody]) = Some (Some (requestError ''invalid URL escape'')) \<and>
   map_option Done (run_response_ops sample_env (served ''http://x/missing'')
       ([OpExpectStatusCode 200] @ [OpExpectSuccess, OpGetJSON (\<lambda>b. Some ''unexpected end'')])) =
     Some (Some (responseError
       (''Invalid StatusCode. Expected to be '' @ [CHR 0x27] @ ''200'' @ [CHR 0x27] @ '', got ''
          @ [CHR 0x27] @ ''404'' @ [CHR 0x27])))"
  using first_failure_is_final [of
      "(Get sample_env ''http://x/:id'')\<lparr>err := Some (requestError ''invalid URL escape'')\<rparr>"
      "requestError ''invalid URL escape''" sample_env "OpHeader ''A'' ''b''" "[]"
      "served ''http://x/''" OpExpectSuccess "[OpExpectSuccess, OpGetBody]"
      "[OpHeader ''A'' ''b'', OpJSONBody (Inl ''unsupported type'')]"
      "Get sample_env ''http://x/:id''" "[OpParam ''id'' ''%zz'']"
      "served ''http://x/''" "[]"]
    first_failure_is_final [of
      "req (the (ExpectStatusCode (served ''http://x/missing'') 200))"
      "responseError
       (''Invalid StatusCode. Expected to be '' @ [CHR 0x27] @ ''200'' @ [CHR 0x27] @ '', got ''
          @ [CHR 0x27] @ ''404'' @ [CHR 0x27])" sample_env "OpHeader ''A'' ''b''" "[]"
      "the (ExpectStatusCode (served ''http://x/missing'') 200)" OpExpectSuccess
      "[OpExpectSuccess, OpGetJSON (\<lambda>b. Some ''unexpected end'')]"
      "[]" "Get sample_env ''http://x/missing''" "[]"
      "served ''http://x/missing''" "[OpExpectStatusCode 200]"]
  by (simp add: eval_defs)

subsection \<open>C2: a continuation hands the failure on\<close>

text \<open>
  Claim C2. A request started through a continuation keeps its own construction error
  when its path does not parse; otherwise its \<open>err\<close> field is the continuation's, so that
  a failure carried by the continuation is what \<^verbatim>\<open>Done\<close> returns at the end of the new
  chain, whatever calls that chain makes, and nothing of the new chain reaches the
  transport. \<^verbatim>\<open>Response.Next\<close> puts the request's \<open>err\<close> into the continuation, and
  \<^verbatim>\<open>Get\<close>, \<^verbatim>\<open>Post\<close>, \<^verbatim>\<open>Put\<close>, \<^verbatim>\<open>Delete\<close> of a continuation are
  \<^verbatim>\<open>New\<close> with the method filled in.
\<close>

theorem Next_New_inherits:
  "(url_Parse E path = Inl m \<longrightarrow>
      Next_New E n meth path = New E meth path \<and>
      err (Next_New E n meth path) =
        Some (errorString (''error parsing url '' @ strconv_Quote E path @ '': '' @ m))) \<and>
   (url_Parse E path = Inr u \<longrightarrow>
      Next_New E n meth path = (New E meth path)\<lparr>err := next_err n\<rparr>) \<and>
   (url_Parse E path = Inr u \<and> next_err n = Some e \<longrightarrow>
      err (Next_New E n meth path) = Some e \<and>
      map_option fst (chain E (Next_New E n meth path) bs sent rs) = Some (Some e) \<and>
      map_option (snd \<circ> snd) (chain E (Next_New E n meth path) bs sent rs) = Some sent) \<and>
   next_err (Next resp) = err (req resp) \<and>
   Next_Get E n path = Next_New E n ''GET'' path \<and>
   Next_Post E n path = Next_New E n ''POST'' path \<and>
   Next_Put E n path = Next_New E n ''PUT'' path \<and>
   Next_Delete E n path = Next_New E n ''DELETE'' path"
proof -
  have a: "url_Parse E path = Inl m \<Longrightarrow> Next_New E n meth path = New E meth path"
    by (simp add: Next_New_def New_failed)
  have b: "url_Parse E path = Inr u \<Longrightarrow>
             Next_New E n meth path = (New E meth path)\<lparr>err := next_err n\<rparr>"
    by (simp add: Next_New_def New_ok)
  have c: "map_option fst (chain E (Next_New E n meth path) bs sent rs) = Some (Some e) \<and>
           map_option (snd \<circ> snd) (chain E (Next_New E n meth path) bs sent rs) = Some sent"
    if "url_Parse E path = Inr u" "next_err n = Some e"
  proof -
    have "err (Next_New E n meth path) = Some e" using that by (simp add: b)
    from chain_failed [OF this, of E bs sent rs] show ?thesis by auto
  qed
  show ?thesis
    using a b c
    by (auto simp: New_failed Next_def Next_Get_def Next_Post_def Next_Put_def Next_Delete_def)
qed

text \<open>
  Witness for C2. \<^verbatim>\<open>ExpectSuccess\<close> fails on a 404; the continuation taken from that
  response starts \<^verbatim>\<open>Get("http://x/")\<close>, and \<^verbatim>\<open>Done\<close> at the end of the new chain
  returns the failure of the old one. Started on \<^verbatim>\<open>":bad"\<close> the new request has its
  own parse error instead, and a continuation without a failure leaves a new request
  without one.
\<close>

theorem Next_New_inherits_witness:
  "next_err (Next (the (ExpectSuccess (served ''http://x/missing'')))) =
     Some (responseError (''Invalid StatusCode. Expected to be in 200 range, got ''
                            @ [CHR 0x27] @ ''404'' @ [CHR 0x27])) \<and>
   map_option fst (chain sample_env
       (Next_Get sample_env (Next (the (ExpectSuccess (served ''http://x/missing'')))) ''http://x/'')
       [OpHeader ''A'' ''b''] [] [OpExpectSuccess]) =
     Some (Some (responseError (''Invalid StatusCode. Expected to be in 200 range, got ''
                            @ [CHR 0x27] @ ''404'' @ [CHR 0x27]))) \<and>
   err (Next_Get sample_env (Next (the (ExpectSuccess (served ''http://x/missing'')))) '':bad'') =
     Some (errorString (''error parsing url '' @ [CHR 0x22] @ '':bad'' @ [CHR 0x22]
                          @ '': missing protocol scheme'')) \<and>
   err (Next_Get sample_env (Next (served ''http://x/'')) ''http://x/'') = None"
  using Next_New_inherits [of sample_env "''http://x/''" "[]"
      "Next (the (ExpectSuccess (served ''http://x/missing'')))" "''GET''"
      "\<lparr>Scheme = ''http'', Opaque = [], User = [], Host = ''x'', Path = ''/'',
        RawQuery = [], Fragment = []\<rparr>"
      "responseError (''Invalid StatusCode. Expected to be in 200 range, got ''
                            @ [CHR 0x27] @ ''404'' @ [CHR 0x27])"
      "[OpHeader ''A'' ''b'']" "[]" "[OpExpectSuccess]" "served ''http://x/missing''"]
    Next_New_inherits [of sample_env "'':bad''" "''missing protocol scheme''"
      "Next (the (ExpectSuccess (served ''http://x/missing'')))" "''GET''"
      "\<lparr>Scheme = ''http'', Opaque = [], User = [], Host = ''x'', Path = ''/'',
        RawQuery = [], Fragment = []\<rparr>"
      "responseError []" "[]" "[]" "[]" "served ''http://x/missing''"]
  by (simp add: eval_defs sample_Quote_def Next_def Next_New_def Next_Get_def)

subsection \<open>C3: a failed request is never sent\<close>

text \<open>
  Claim C3. On a request whose \<open>err\<close> field is set, \<^verbatim>\<open>Send\<close> leaves the list of
  requests handed to the transport as it was and returns the zero response (status 0, no
  body) around the request; \<^verbatim>\<open>Done\<close> on it returns the failure. The same holds at the
  end of any chain from such a request: nothing reaches the transport and \<^verbatim>\<open>Done\<close>
  returns the failure.
\<close>

theorem Send_skips_transport:
  assumes "err r = Some e"
  shows "Send E r sent = Some (\<lparr>Response = Some zero_http_Response, req = r\<rparr>, sent) \<and>
         StatusCode zero_http_Response = 0 \<and>
         resp_Body zero_http_Response = None \<and>
         Done \<lparr>Response = Some zero_http_Response, req = r\<rparr> = Some e \<and>
         map_option (snd \<circ> snd) (chain E r bs sent rs) = Some sent \<and>
         map_option fst (chain E r bs sent rs) = Some (Some e)"
  using assms chain_failed [OF assms, of E bs sent rs]
  by (auto simp: Send_failed Done_def zero_http_Response_def)

text \<open>
  Witness for C3. \<^verbatim>\<open>Get(":bad")\<close> fails in construction; \<^verbatim>\<open>Send\<close> and a chain
  with a header and an expectation hand nothing to the transport, where
  \<^verbatim>\<open>Get("http://x/").Send()\<close> hands over one request.
\<close>

theorem Send_skips_transport_witness:
  "err (Get sample_env '':bad'') =
     Some (errorString (''error parsing url '' @ [CHR 0x22] @ '':bad'' @ [CHR 0x22]
                          @ '': missing protocol scheme'')) \<and>
   Send sample_env (Get sample_env '':bad'') [] =
     Some (\<lparr>Response = Some zero_http_Response, req = Get sample_env '':bad''\<rparr>, []) \<and>
   map_option (snd \<circ> snd) (chain sample_env (Get sample_env '':bad'')
       [OpHeader ''A'' ''b''] [] [OpExpectSuccess]) = Some [] \<and>
   map_option (length \<circ> snd) (Send sample_env (Get sample_env ''http://x/'') []) = Some 1"
  using Send_skips_transport [of "Get sample_env '':bad''"
      "errorString (''error parsing url '' @ [CHR 0x22] @ '':bad'' @ [CHR 0x22]
                          @ '': missing protocol scheme'')" sample_env "[]"
      "[OpHeader ''A'' ''b'']" "[OpExpectSuccess]"]
  by (simp add: eval_defs sample_Quote_def)

subsection \<open>C4: closing the body of the response\<close>

text \<open>
  Claim C4 says that the body of a response has been closed exactly once when the chain
  reaches \<^verbatim>\<open>Done\<close> or \<^verbatim>\<open>Next\<close>, on every path. The code does not do that; run
  against the sample server:
  \<^item> single-file revision, the second chain of \<^verbatim>\<open>TestQuest\<close>:
    \<^verbatim>\<open>Get(url + "?bad=true").Header(..).Send().ExpectStatusCode(400).Done()\<close> returns
    nil and the body has never been closed;
  \<^item> same revision: after a failed \<^verbatim>\<open>ExpectSuccess\<close> the call of \<^verbatim>\<open>GetBody\<close> is
    skipped, and with it the only \<^verbatim>\<open>Close\<close>; and \<^verbatim>\<open>GetBody\<close> followed by
    \<^verbatim>\<open>GetJSON\<close> closes twice;
  \<^item> split revision: \<^verbatim>\<open>Done\<close> closes the body once, but \<^verbatim>\<open>Next\<close> returns the
    continuation with the body still open, and \<^verbatim>\<open>Done\<close> on the zero response that
    \<^verbatim>\<open>Send\<close> returns for a failed request calls \<^verbatim>\<open>Close\<close> on a nil body and
    panics.
\<close>

theorem body_not_closed_once:
  "map_option fst (chain sample_env (Get sample_env ''http://x/?bad=true'')
       [OpHeader ''X-Some-Header'' ''some-fake-token''] [] [OpExpectStatusCode 400]) = Some None \<and>
   map_option (close_count \<circ> fst \<circ> snd) (chain sample_env (Get sample_env ''http://x/?bad=true'')
       [OpHeader ''X-Some-Header'' ''some-fake-token''] [] [OpExpectStatusCode 400]) = Some 0 \<and>
   map_option (close_count \<circ> fst \<circ> snd) (chain sample_env (Get sample_env ''http://x/missing'')
       [] [] [OpExpectSuccess, OpGetBody]) = Some 0 \<and>
   map_option (close_count \<circ> fst \<circ> snd) (chain sample_env (Get sample_env ''http://x/'')
       [] [] [OpGetBody, OpGetJSON (\<lambda>b. None)]) = Some 2 \<and>
   map_option (close_count \<circ> snd) (Done_v2 (served ''http://x/'')) = Some 1 \<and>
   ExpectSuccess (served ''http://x/'') = Some (served ''http://x/'') \<and>
   Next (served ''http://x/'') = \<lparr>next_err = None\<rparr> \<and>
   close_count (served ''http://x/'') = 0 \<and>
   Response (served '':bad'') = Some zero_http_Response \<and>
   Done_v2 (served '':bad'') = None"
  by (simp add: eval_defs chain_def Done_def Done_v2_def Next_def close_count_def Close_def
      ReadAll_def)

subsection \<open>C5: substituting a path parameter\<close>

text \<open>
  Claim C5 says that \<^verbatim>\<open>Param(key, value)\<close> replaces the first \<^verbatim>\<open>:key\<close> in the
  path, and that a key without a placeholder in the path changes nothing and records no
  failure. The code replaces the first \<^verbatim>\<open>:key\<close> in the rendering of the whole URL.
  Counterexample: \<^verbatim>\<open>Get("http://x:80/:80").Param("80", "9")\<close> rewrites the port and
  yields the request of \<^verbatim>\<open>http://x9/:80\<close>, whose path is still \<^verbatim>\<open>/:80\<close>, not the
  request of \<^verbatim>\<open>http://x:80/9\<close>; and \<^verbatim>\<open>Get("http://x:80/p").Param("80", ":y")\<close>,
  whose path has no placeholder, records a failure.
\<close>

theorem Param_path_counterexample:
  "Param sample_env (Get sample_env ''http://x:80/:80'') ''80'' ''9'' =
     Some (Get sample_env ''http://x9/:80'') \<and>
   URL (Get sample_env ''http://x:80/:80'') =
     Some \<lparr>Scheme = ''http'', Opaque = [], User = [], Host = ''x:80'', Path = ''/:80'',
           RawQuery = [], Fragment = []\<rparr> \<and>
   URL (Get sample_env ''http://x9/:80'') =
     Some \<lparr>Scheme = ''http'', Opaque = [], User = [], Host = ''x9'', Path = ''/:80'',
           RawQuery = [], Fragment = []\<rparr> \<and>
   Replace_1 ''/:80'' '':80'' ''9'' = ''/9'' \<and>
   Param sample_env (Get sample_env ''http://x:80/:80'') ''80'' ''9'' \<noteq>
     Some (Get sample_env ''http://x:80/9'') \<and>
   \<not> Contains ''/p'' '':80'' \<and>
   Param sample_env (Get sample_env ''http://x:80/p'') ''80'' '':y'' =
     Some ((Get sample_env ''http://x:80/p'')
             \<lparr>err := Some (requestError (''invalid port '' @ [CHR 0x22] @ '':y'' @ [CHR 0x22]
                                            @ '' after host''))\<rparr>)"
  by (simp add: eval_defs)

text \<open>
  Claim C5, amended. On a request without a failure, \<^verbatim>\<open>Param(key, value)\<close> replaces
  the first occurrence of \<^verbatim>\<open>:key\<close> in the rendering of the whole URL
  (\<^verbatim>\<open>r.URL.String()\<close>: scheme, authority, path and query) by \<open>value\<close> and parses the
  result again. It records a build-time error exactly when that string does not parse,
  and then leaves the target as it was; method, headers and body are never touched. With
  the rendering \<open>ps @ '':'' @ key @ ss\<close> and no occurrence further left, the string parsed
  is \<open>ps @ value @ ss\<close>. When \<^verbatim>\<open>:key\<close> does not occur in the rendering and the
  rendering parses back to the same URL, the request is returned as it is.
\<close>

theorem Param_replaces_in_rendered_URL:
  assumes "err r = None" and "URL r = Some u"
  shows "(\<exists>r'. Param E r key value = Some r' \<and>
               (err r' \<noteq> None) =
                 isl (url_Parse E (Replace_1 (URL_String E u) ('':'' @ key) value)) \<and>
               (err r' \<noteq> None \<longrightarrow> URL r' = URL r) \<and>
               method r' = method r \<and> headers r' = headers r \<and> data r' = data r) \<and>
         (URL_String E u = ps @ ('':'' @ key) @ ss \<and>
          \<not> Contains (ps @ butlast ('':'' @ key)) ('':'' @ key) \<and>
          url_Parse E (ps @ value @ ss) = Inr u' \<longrightarrow>
            Param E r key value = Some (r\<lparr>URL := Some u'\<rparr>)) \<and>
         (URL_String E u = ps @ ('':'' @ key) @ ss \<and>
          \<not> Contains (ps @ butlast ('':'' @ key)) ('':'' @ key) \<and>
          url_Parse E (ps @ value @ ss) = Inl m \<longrightarrow>
            Param E r key value = Some (r\<lparr>err := Some (requestError m)\<rparr>)) \<and>
         (\<not> Contains (URL_String E u) ('':'' @ key) \<and>
          url_Parse E (URL_String E u) = Inr u \<longrightarrow>
            Param E r key value = Some r)"
proof -
  note ev = Param_eval [OF assms, of E key "value"]
  have 1: "\<exists>r'. Param E r key value = Some r' \<and>
               (err r' \<noteq> None) =
                 isl (url_Parse E (Replace_1 (URL_String E u) ('':'' @ key) value)) \<and>
               (err r' \<noteq> None \<longrightarrow> URL r' = URL r) \<and>
               method r' = method r \<and> headers r' = headers r \<and> data r' = data r"
    using assms by (cases "url_Parse E (Replace_1 (URL_String E u) ('':'' @ key) value)")
      (simp_all add: ev)
  have at: "Replace_1 (URL_String E u) ('':'' @ key) value = ps @ value @ ss"
    if "URL_String E u = ps @ ('':'' @ key) @ ss"
       "\<not> Contains (ps @ butlast ('':'' @ key)) ('':'' @ key)"
    using Replace_1_at [OF _ that(1) that(2)] by simp
  have 2: "Param E r key value = Some (r\<lparr>URL := Some u'\<rparr>)"
    if "URL_String E u = ps @ ('':'' @ key) @ ss"
       "\<not> Contains (ps @ butlast ('':'' @ key)) ('':'' @ key)"
       "url_Parse E (ps @ value @ ss) = Inr u'"
    using that(3) at [OF that(1,2)] by (simp add: ev)
  have 3: "Param E r key value = Some (r\<lparr>err := Some (requestError m)\<rparr>)"
    if "URL_String E u = ps @ ('':'' @ key) @ ss"
       "\<not> Contains (ps @ butlast ('':'' @ key)) ('':'' @ key)"
       "url_Parse E (ps @ value @ ss) = Inl m"
    using that(3) at [OF that(1,2)] by (simp add: ev)
  have 4: "Param E r key value = Some r"
    if "\<not> Contains (URL_String E u) ('':'' @ key)" "url_Parse E (URL_String E u) = Inr u"
    using that assms(2) by (simp add: ev Replace_1_absent)
  from 1 2 3 4 show ?thesis by blast
qed

text \<open>
  Witness for C5 as amended: the scenario of the specification,
  \<^verbatim>\<open>Get("http://x/:id").Param("id", "42")\<close>, yields the path \<^verbatim>\<open>/42\<close>; the value
  \<^verbatim>\<open>%zz\<close> records a failure and leaves the target; the key \<^verbatim>\<open>name\<close>, which has no
  placeholder, leaves the request as it is.
\<close>

theorem Param_replaces_in_rendered_URL_witness:
  "Param sample_env (Get sample_env ''http://x/:id'') ''id'' ''42'' =
     Some (Get sample_env ''http://x/42'') \<and>
   map_option Path (URL (Get sample_env ''http://x/42'')) = Some ''/42'' \<and>
   Param sample_env (Get sample_env ''http://x/:id'') ''id'' ''%zz'' =
     Some ((Get sample_env ''http://x/:id'')\<lparr>err := Some (requestError ''invalid URL escape'')\<rparr>) \<and>
   Param sample_env (Get sample_env ''http://x/:id'') ''name'' ''42'' =
     Some (Get sample_env ''http://x/:id'')"
  using Param_replaces_in_rendered_URL [of "Get sample_env ''http://x/:id''"
      "\<lparr>Scheme = ''http'', Opaque = [], User = [], Host = ''x'', Path = ''/:id'',
        RawQuery = [], Fragment = []\<rparr>" sample_env "''id''" "''42''" "''http://x/''" "[]"
      "\<lparr>Scheme = ''http'', Opaque = [], User = [], Host = ''x'', Path = ''/42'',
        RawQuery = [], Fragment = []\<rparr>" "[]"]
    Param_replaces_in_rendered_URL [of "Get sample_env ''http://x/:id''"
      "\<lparr>Scheme = ''http'', Opaque = [], User = [], Host = ''x'', Path = ''/:id'',
        RawQuery = [], Fragment = []\<rparr>" sample_env "''id''" "''%zz''" "''http://x/''" "[]"
      "\<lparr>Scheme = ''http'', Opaque = [], User = [], Host = ''x'', Path = ''/42'',
        RawQuery = [], Fragment = []\<rparr>" "''invalid URL escape''"]
    Param_replaces_in_rendered_URL [of "Get sample_env ''http://x/:id''"
      "\<lparr>Scheme = ''http'', Opaque = [], User = [], Host = ''x'', Path = ''/:id'',
        RawQuery = [], Fragment = []\<rparr>" sample_env "''name''" "''42''" "''http://x/''" "[]"
      "\<lparr>Scheme = ''http'', Opaque = [], User = [], Host = ''x'', Path = ''/42'',
        RawQuery = [], Fragment = []\<rparr>" "[]"]
  by (simp add: sample_env_def sample_Parse_def sample_String_def Get_def New_def)

subsection \<open>C6: a multipart body\<close>

text \<open>
  Claim C6 says that a form carrying an error makes that error the failure of the request
  and changes nothing else. \<^verbatim>\<open>MultipartBody\<close> sets the \<^verbatim>\<open>Content-Type\<close> header
  before it copies the form's error, so on \<^verbatim>\<open>Post("http://x/upload")\<close> and a form
  whose file part failed to encode the failure is recorded, the body is left alone, and
  the header map has gained \<^verbatim>\<open>Content-Type\<close>. \<^verbatim>\<open>JSONBody\<close> on a value that fails to
  marshal leaves the headers alone.
\<close>

theorem MultipartBody_failed_form_sets_header:
  "MultipartBody (Post sample_env ''http://x/upload'') failed_form =
     Some ((Post sample_env ''http://x/upload'')
             \<lparr>headers := Some [''Accept'' \<mapsto> ''application/json'', ''User-Agent'' \<mapsto> ''quest/v1'',
                               ''Content-Type'' \<mapsto> ''multipart/form-data; boundary=b''],
              err := Some (errorString ''json: unsupported type: chan int'')\<rparr>) \<and>
   header_of (Post sample_env ''http://x/upload'') ''Content-Type'' = None \<and>
   header_of ((Post sample_env ''http://x/upload'')
             \<lparr>headers := Some [''Accept'' \<mapsto> ''application/json'', ''User-Agent'' \<mapsto> ''quest/v1'',
                               ''Content-Type'' \<mapsto> ''multipart/form-data; boundary=b''],
              err := Some (errorString ''json: unsupported type: chan int'')\<rparr>) ''Content-Type''
     = Some ''multipart/form-data; boundary=b'' \<and>
   JSONBody (Post sample_env ''http://x/upload'') (Inl ''json: unsupported type: chan int'') =
     Some ((Post sample_env ''http://x/upload'')
             \<lparr>err := Some (requestError ''json: unsupported type: chan int'')\<rparr>)"
  by (simp add: MultipartBody_eval [where h = "[''Accept'' \<mapsto> ''application/json'', ''User-Agent'' \<mapsto> ''quest/v1'']"]
      failed_form_def header_of_def Post_def New_def sample_env_def sample_Parse_def JSONBody_def
      handleRequestError_def)

subsection \<open>C7: the content type of the response\<close>

text \<open>
  Claim C7. On a response without a failure, \<^verbatim>\<open>ExpectType(value)\<close> returns, and it
  leaves the request without a failure if and only if the \<^verbatim>\<open>Content-Type\<close> header of
  the response contains, as a substring, what the alias table of the specification gives
  for \<open>value\<close>; in that case the response is returned as it is.
\<close>

theorem ExpectType_alias_substring:
  assumes "err (req r) = None" and "Response r = Some h"
  shows "\<exists>r'. ExpectType E r value = Some r' \<and>
           (err (req r') = None) =
             Contains (Header_Get E (resp_Header h) ''Content-Type'') (spec_alias value) \<and>
           (err (req r') = None \<longrightarrow> r' = r)"
  using assms
  by (simp add: ExpectType_def ExpectHeader_def Let_def types_resolve)

text \<open>
  Witness for C7. The sample server answers with
  \<^verbatim>\<open>application/json; charset=utf-8\<close>: \<^verbatim>\<open>ExpectType("json")\<close> accepts it and
  \<^verbatim>\<open>ExpectType("xml")\<close> records a failure.
\<close>

theorem ExpectType_alias_substring_witness:
  "err (req (served ''http://x/'')) = None \<and>
   Header_Get sample_env (resp_Header (the (Response (served ''http://x/'')))) ''Content-Type'' =
     ''application/json; charset=utf-8'' \<and>
   spec_alias ''json'' = ''application/json'' \<and>
   ExpectType sample_env (served ''http://x/'') ''json'' = Some (served ''http://x/'') \<and>
   (\<exists>r'. ExpectType sample_env (served ''http://x/'') ''xml'' = Some r' \<and> err (req r') \<noteq> None)"
  using ExpectType_alias_substring [of "served ''http://x/''" "the (Response (served ''http://x/''))"
      sample_env "''json''"]
    ExpectType_alias_substring [of "served ''http://x/''" "the (Response (served ''http://x/''))"
      sample_env "''xml''"]
  by (simp add: eval_defs types_def spec_alias_def Let_def)

subsection \<open>C8: the expected status code\<close>

text \<open>
  Claim C8. On a response without a failure, \<^verbatim>\<open>ExpectStatusCode(code)\<close> returns; it
  records a failure if and only if the status of the response differs from \<open>code\<close>, and
  returns the response as it is when they agree. The failure recorded is a response error
  whose message contains the decimal rendering of \<open>code\<close> and that of the status.
\<close>

theorem ExpectStatusCode_message:
  assumes "err (req r) = None" and "Response r = Some h"
  shows "\<exists>r'. ExpectStatusCode r code = Some r' \<and>
           (err (req r') \<noteq> None) = (StatusCode h \<noteq> code) \<and>
           (StatusCode h = code \<longrightarrow> r' = r) \<and>
           (StatusCode h \<noteq> code \<longrightarrow>
              (\<exists>msg. err (req r') = Some (responseError msg) \<and>
                     Contains msg (decimal code) \<and>
                     Contains msg (decimal (StatusCode h))))"
proof (cases "StatusCode h = code")
  case True
  then show ?thesis using assms by (simp add: ExpectStatusCode_def)
next
  case False
  let ?msg = "''Invalid StatusCode. Expected to be '' @ [CHR 0x27] @ decimal code
                @ [CHR 0x27] @ '', got '' @ [CHR 0x27] @ decimal (StatusCode h) @ [CHR 0x27]"
  have e: "ExpectStatusCode r code =
             Some (r\<lparr>req := (req r)\<lparr>err := Some (responseError ?msg)\<rparr>\<rparr>)"
    using assms False by (simp add: ExpectStatusCode_def handleResponseError_def)
  have c1: "Contains ?msg (decimal code)"
    using Contains_middle [of "''Invalid StatusCode. Expected to be '' @ [CHR 0x27]"
        "decimal code"
        "[CHR 0x27] @ '', got '' @ [CHR 0x27] @ decimal (StatusCode h) @ [CHR 0x27]"]
    by simp
  have c2: "Contains ?msg (decimal (StatusCode h))"
    using Contains_middle [of "''Invalid StatusCode. Expected to be '' @ [CHR 0x27]
                @ decimal code @ [CHR 0x27] @ '', got '' @ [CHR 0x27]"
        "decimal (StatusCode h)" "[CHR 0x27]"]
    by simp
  show ?thesis using False c1 c2 by (simp add: e)
qed

text \<open>
  Witness for C8. \<^verbatim>\<open>ExpectStatusCode(200)\<close> on the 404 of the sample server records an
  error whose message contains \<^verbatim>\<open>200\<close> and \<^verbatim>\<open>404\<close>; \<^verbatim>\<open>ExpectStatusCode(404)\<close>
  returns the response as it is.
\<close>

theorem ExpectStatusCode_message_witness:
  "err (req (served ''http://x/missing'')) = None \<and>
   map_option StatusCode (Response (served ''http://x/missing'')) = Some 404 \<and>
   decimal 200 = ''200'' \<and> decimal 404 = ''404'' \<and>
   (\<exists>r' msg. ExpectStatusCode (served ''http://x/missing'') 200 = Some r' \<and>
       err (req r') = Some (responseError msg) \<and> Contains msg ''200'' \<and> Contains msg ''404'') \<and>
   ExpectStatusCode (served ''http://x/missing'') 404 = Some (served ''http://x/missing'')"
  using ExpectStatusCode_message [of "served ''http://x/missing''"
      "the (Response (served ''http://x/missing''))" 200]
    ExpectStatusCode_message [of "served ''http://x/missing''"
      "the (Response (served ''http://x/missing''))" 404]
  by (simp add: eval_defs)

subsection \<open>C9: a status in the 200 range\<close>

text \<open>
  Claim C9. On a response without a failure, \<^verbatim>\<open>ExpectSuccess\<close> returns; it records a
  failure if and only if the status lies outside the half-open interval from 200 to 300,
  and for a status inside it the response is returned as it is.
\<close>

theorem ExpectSuccess_range:
  assumes "err (req r) = None" and "Response r = Some h"
  shows "\<exists>r'. ExpectSuccess r = Some r' \<and>
           (err (req r') \<noteq> None) = (StatusCode h \<notin> {200..<300}) \<and>
           (StatusCode h \<in> {200..<300} \<longrightarrow> r' = r)"
  using assms by (auto simp: ExpectSuccess_def Let_def)

text \<open>
  Witness for C9. The 200 of the sample server passes \<^verbatim>\<open>ExpectSuccess\<close> unchanged;
  its 404 records a failure.
\<close>

theorem ExpectSuccess_range_witness:
  "err (req (served ''http://x/'')) = None \<and>
   map_option StatusCode (Response (served ''http://x/'')) = Some 200 \<and>
   ExpectSuccess (served ''http://x/'') = Some (served ''http://x/'') \<and>
   map_option StatusCode (Response (served ''http://x/missing'')) = Some 404 \<and>
   (\<exists>r'. ExpectSuccess (served ''http://x/missing'') = Some r' \<and> err (req r') \<noteq> None)"
  using ExpectSuccess_range [of "served ''http://x/''" "the (Response (served ''http://x/''))"]
    ExpectSuccess_range [of "served ''http://x/missing''"
      "the (Response (served ''http://x/missing''))"]
  by (simp add: eval_defs)

subsection \<open>C10: a request whose construction failed\<close>

text \<open>
  Claim C10. When the path does not parse, \<^verbatim>\<open>New\<close> returns a request that carries
  the parse error and has no URL, no header map and no body buffer. \<^verbatim>\<open>Header\<close>,
  \<^verbatim>\<open>BasicAuth\<close>, \<^verbatim>\<open>QueryParam\<close>, \<^verbatim>\<open>Param\<close>, \<^verbatim>\<open>Body\<close>, \<^verbatim>\<open>JSONBody\<close>,
  \<^verbatim>\<open>MultipartBody\<close> and \<^verbatim>\<open>Send\<close> on it all return, without a panic, and leave it
  as it is. It is the check of \<open>err\<close> that keeps them from the missing fields: on the
  same request with \<open>err\<close> cleared, \<^verbatim>\<open>Header\<close>, \<^verbatim>\<open>BasicAuth\<close>, \<^verbatim>\<open>QueryParam\<close>,
  \<^verbatim>\<open>Param\<close> and \<^verbatim>\<open>Send\<close> panic.
\<close>

theorem failed_New_never_faults:
  assumes "url_Parse E path = Inl m"
  shows "URL (New E meth path) = None \<and>
         headers (New E meth path) = None \<and>
         data (New E meth path) = None \<and>
         err (New E meth path) =
           Some (errorString (''error parsing url '' @ strconv_Quote E path @ '': '' @ m)) \<and>
         Header (New E meth path) key value = Some (New E meth path) \<and>
         BasicAuth E (New E meth path) username password = Some (New E meth path) \<and>
         QueryParam E (New E meth path) key value = Some (New E meth path) \<and>
         Param E (New E meth path) key value = Some (New E meth path) \<and>
         Body (New E meth path) buf = Some (New E meth path) \<and>
         JSONBody (New E meth path) marshalled = Some (New E meth path) \<and>
         MultipartBody (New E meth path) form = Some (New E meth path) \<and>
         Send E (New E meth path) sent =
           Some (\<lparr>Response = Some zero_http_Response, req = New E meth path\<rparr>, sent) \<and>
         Header ((New E meth path)\<lparr>err := None\<rparr>) key value = None \<and>
         BasicAuth E ((New E meth path)\<lparr>err := None\<rparr>) username password = None \<and>
         QueryParam E ((New E meth path)\<lparr>err := None\<rparr>) key value = None \<and>
         Param E ((New E meth path)\<lparr>err := None\<rparr>) key value = None \<and>
         Send E ((New E meth path)\<lparr>err := None\<rparr>) sent = None"
proof -
  let ?e = "errorString (''error parsing url '' @ strconv_Quote E path @ '': '' @ m)"
  have shape: "New E meth path =
      \<lparr>URL = None, method = [], data = None, headers = None, err = Some ?e, span = False\<rparr>"
    by (rule New_failed [OF assms])
  have failed: "err (New E meth path) = Some ?e"
    by (simp add: shape)
  have builders: "Header (New E meth path) key value = Some (New E meth path)"
    "BasicAuth E (New E meth path) username password = Some (New E meth path)"
    "QueryParam E (New E meth path) key value = Some (New E meth path)"
    "Param E (New E meth path) key value = Some (New E meth path)"
    "Body (New E meth path) buf = Some (New E meth path)"
    "JSONBody (New E meth path) marshalled = Some (New E meth path)"
    "MultipartBody (New E meth path) form = Some (New E meth path)"
    using failed by (simp_all add: request_op_defs)
  have cleared: "Header ((New E meth path)\<lparr>err := None\<rparr>) key value = None"
    "BasicAuth E ((New E meth path)\<lparr>err := None\<rparr>) username password = None"
    "QueryParam E ((New E meth path)\<lparr>err := None\<rparr>) key value = None"
    "Param E ((New E meth path)\<lparr>err := None\<rparr>) key value = None"
    "Send E ((New E meth path)\<lparr>err := None\<rparr>) sent = None"
    by (simp_all add: shape request_op_defs Send_def)
  show ?thesis
    using builders cleared Send_failed [OF failed, of E sent] by (simp add: shape)
qed

text \<open>
  Witness for C10. \<^verbatim>\<open>New("GET", ":bad")\<close> does not parse; \<^verbatim>\<open>Header\<close> and
  \<^verbatim>\<open>QueryParam\<close> return it unchanged, and \<^verbatim>\<open>Header\<close> panics once \<open>err\<close> is
  cleared.
\<close>

theorem failed_New_never_faults_witness:
  "url_Parse sample_env '':bad'' = Inl ''missing protocol scheme'' \<and>
   Header (New sample_env ''GET'' '':bad'') ''A'' ''b'' = Some (New sample_env ''GET'' '':bad'') \<and>
   QueryParam sample_env (New sample_env ''GET'' '':bad'') ''k'' ''v'' =
     Some (New sample_env ''GET'' '':bad'') \<and>
   Header ((New sample_env ''GET'' '':bad'')\<lparr>err := None\<rparr>) ''A'' ''b'' = None"
  using failed_New_never_faults [of sample_env "'':bad''" "''missing protocol scheme''" "''GET''"
      "''A''" "''b''" "''u''" "''p''" "None" "Inl ''e''" failed_form "[]"]
    failed_New_never_faults [of sample_env "'':bad''" "''missing protocol scheme''" "''GET''"
      "''k''" "''v''" "''u''" "''p''" "None" "Inl ''e''" failed_form "[]"]
  by (simp add: sample_env_def sample_Parse_def)

end
